theory Spec2Isabelle
  imports Complex_Main
begin

section \<open>Numbers, errors and the Python helpers the widget relies on\<close>

text \<open>
  The widget \<^verbatim>\<open>OWPCA\<close> of \<^verbatim>\<open>Orange/widgets/unsupervised/owpca.py\<close> keeps the
  explained-variance spectrum of a fitted PCA as numpy arrays of 64-bit floats. A finite
  float is modelled by the rational number it stands for, the three non-finite values by
  constructors of their own. Every arithmetic operation of the source computes the exact
  result and rounds it to the nearest float, ties to the even significand, as IEEE 754
  binary64 does (\<open>round_double\<close>); a result beyond the largest float is an infinity.
  The sign of zero is not modelled.
\<close>

datatype npfloat = Fin rat | PInf | NInf | NaN

datatype error =
  IndexError | TypeError | ValueError | AssertionError | ZeroDivisionError | AttributeError
  | OverflowError

text \<open>
  A call either returns a value or raises; in both cases the object it mutated is left in
  the state reached so far.
\<close>

datatype ('a, 's) result = Return 'a 's | Raise error 's

text \<open>What a call leaves of the object, whether it returned or raised.\<close>

definition final_state :: "('a, 's) result \<Rightarrow> 's" where
  "final_state r = (case r of Return a s \<Rightarrow> s | Raise e s \<Rightarrow> s)"

definition returns :: "('a, 's) result \<Rightarrow> bool" where
  "returns r = (case r of Return a s \<Rightarrow> True | Raise e s \<Rightarrow> False)"

definition then_do :: "('a, 's) result \<Rightarrow> ('a \<Rightarrow> 's \<Rightarrow> ('b, 's) result) \<Rightarrow> ('b, 's) result" where
  "then_do r f = (case r of Return a s \<Rightarrow> f a s | Raise e s \<Rightarrow> Raise e s)"

text \<open>
  Rounding to binary64. \<open>bit_length\<close> is the number of binary digits of a positive
  integer, \<open>ilog2 a\<close> the exponent \<open>e\<close> with \<open>2 ^ e \<le> a < 2 ^ (e + 1)\<close> of a positive
  rational; a float with exponent \<open>e\<close> is a multiple of \<open>2 ^ (e - 52)\<close>, and below
  \<open>2 ^ (- 1022)\<close> of \<open>2 ^ (- 1074)\<close>.
\<close>

function bit_length :: "int \<Rightarrow> int" where
  "bit_length n = (if n \<le> 0 then 0 else 1 + bit_length (n div 2))"
  by pat_completeness auto
termination
  by (relation "measure nat") auto

declare bit_length.simps [simp del]

definition pow2 :: "int \<Rightarrow> rat" where
  "pow2 e = (if 0 \<le> e then 2 ^ nat e else 1 / 2 ^ nat (- e))"

definition ilog2 :: "rat \<Rightarrow> int" where
  "ilog2 a =
     (case quotient_of a of
        (n, d) \<Rightarrow>
          (let e0 = bit_length n - bit_length d
           in if pow2 e0 \<le> a then e0 else e0 - 1))"

definition round_half_even :: "rat \<Rightarrow> int" where
  "round_half_even x =
     (let f = \<lfloor>x\<rfloor>; d = x - of_int f
      in if d < 1 / 2 then f else if 1 / 2 < d then f + 1
         else if even f then f else f + 1)"

definition round_double :: "rat \<Rightarrow> npfloat" where
  "round_double r =
     (if r = 0 then Fin 0
      else
        (let a = \<bar>r\<bar>; e = max (ilog2 a) (- 1022); m = round_half_even (a / pow2 (e - 52))
         in if 1023 < e \<or> (e = 1023 \<and> 2 ^ 53 \<le> m) then (if 0 < r then PInf else NInf)
            else Fin (sgn r * of_int m * pow2 (e - 52))))"

fun isfinite :: "npfloat \<Rightarrow> bool" where
  "isfinite (Fin r) = True"
| "isfinite PInf = False"
| "isfinite NInf = False"
| "isfinite NaN = False"

text \<open>Float addition, as \<^verbatim>\<open>numpy.cumsum\<close> uses it.\<close>

fun np_add :: "npfloat \<Rightarrow> npfloat \<Rightarrow> npfloat" where
  "np_add (Fin a) (Fin b) = round_double (a + b)"
| "np_add NaN y = NaN"
| "np_add x NaN = NaN"
| "np_add PInf NInf = NaN"
| "np_add NInf PInf = NaN"
| "np_add PInf y = PInf"
| "np_add x PInf = PInf"
| "np_add NInf y = NInf"
| "np_add x NInf = NInf"

fun cumsum_from :: "npfloat \<Rightarrow> npfloat list \<Rightarrow> npfloat list" where
  "cumsum_from acc [] = []"
| "cumsum_from acc (x # xs) = np_add acc x # cumsum_from (np_add acc x) xs"

fun cumsum :: "npfloat list \<Rightarrow> npfloat list" where
  "cumsum [] = []"
| "cumsum (x # xs) = x # cumsum_from x xs"

text \<open>\<^verbatim>\<open>a != b\<close> on floats: a NaN differs from everything, itself included.\<close>

definition np_ne :: "npfloat \<Rightarrow> npfloat \<Rightarrow> bool" where
  "np_ne a b = (a = NaN \<or> b = NaN \<or> a \<noteq> b)"

text \<open>
  The order numpy sorts and searches floats by: the usual order of the extended reals,
  with NaN after every other value.
\<close>

fun np_less :: "npfloat \<Rightarrow> npfloat \<Rightarrow> bool" where
  "np_less NaN y = False"
| "np_less x NaN = True"
| "np_less x NInf = False"
| "np_less NInf y = True"
| "np_less PInf y = False"
| "np_less x PInf = True"
| "np_less (Fin a) (Fin b) = (a < b)"

text \<open>
  \<^verbatim>\<open>int(x)\<close> of a float truncates a finite value towards zero and raises for an
  infinity or a NaN; \<open>times_100\<close> is the float product \<^verbatim>\<open>var * 100\<close>.
\<close>

definition py_int :: "rat \<Rightarrow> int" where
  "py_int r = (if 0 \<le> r then \<lfloor>r\<rfloor> else \<lceil>r\<rceil>)"

fun int_of_float :: "npfloat \<Rightarrow> error + int" where
  "int_of_float (Fin r) = Inr (py_int r)"
| "int_of_float NaN = Inl ValueError"
| "int_of_float PInf = Inl OverflowError"
| "int_of_float NInf = Inl OverflowError"

definition times_100 :: "rat \<Rightarrow> npfloat" where
  "times_100 r = round_double (r * 100)"

text \<open>
  \<^verbatim>\<open>v / 100.0\<close> for a Python integer \<^verbatim>\<open>v\<close>: the integer is converted to the
  nearest float, which raises \<^verbatim>\<open>OverflowError\<close> when there is none, and the quotient
  is rounded. \<^verbatim>\<open>numpy.floor\<close> of a float is exact.
\<close>

definition div_100 :: "int \<Rightarrow> error + npfloat" where
  "div_100 v =
     (case round_double (of_int v) of
        Fin a \<Rightarrow> Inr (round_double (a / 100))
      | _ \<Rightarrow> Inl OverflowError)"

fun np_floor :: "npfloat \<Rightarrow> npfloat" where
  "np_floor (Fin r) = Fin (of_int \<lfloor>r\<rfloor>)"
| "np_floor x = x"

text \<open>
  Indexing \<^verbatim>\<open>xs[i]\<close>: a negative index counts from the end, an index outside
  \<^verbatim>\<open>-len(xs) .. len(xs) - 1\<close> raises \<^verbatim>\<open>IndexError\<close>.
\<close>

definition py_index :: "'a list \<Rightarrow> int \<Rightarrow> error + 'a" where
  "py_index xs i =
     (if 0 \<le> i \<and> i < int (length xs) then Inr (xs ! nat i)
      else if - int (length xs) \<le> i \<and> i < 0 then Inr (xs ! nat (int (length xs) + i))
      else Inl IndexError)"

text \<open>The slice \<^verbatim>\<open>xs[:n]\<close>: a negative \<^verbatim>\<open>n\<close> drops the last \<^verbatim>\<open>-n\<close> elements.\<close>

definition py_slice_to :: "int \<Rightarrow> 'a list \<Rightarrow> 'a list" where
  "py_slice_to n xs = (if 0 \<le> n then take (nat n) xs else take (length xs - nat (- n)) xs)"

text \<open>\<^verbatim>\<open>range(1, p + 1, d)\<close> for a step \<^verbatim>\<open>d >= 1\<close>.\<close>

definition py_range_step :: "int \<Rightarrow> int \<Rightarrow> int list" where
  "py_range_step p d = filter (\<lambda>i. (i - 1) mod d = 0) [1..p]"

text \<open>\<^verbatim>\<open>str(n)\<close> of a natural number, for the labels \<^verbatim>\<open>'PC{}'.format(i + 1)\<close>.\<close>

definition digit_char :: "nat \<Rightarrow> char" where
  "digit_char d = char_of (48 + d)"

function str_nat :: "nat \<Rightarrow> string" where
  "str_nat n = (if n < 10 then [digit_char n] else str_nat (n div 10) @ [digit_char (n mod 10)])"
  by pat_completeness auto
termination
  by (relation "measure (\<lambda>n. n)") auto

declare str_nat.simps [simp del]

text \<open>
  \<^verbatim>\<open>numpy.searchsorted(a, v)\<close> with the default side: a binary search for the leftmost
  insertion point of \<^verbatim>\<open>v\<close> in \<^verbatim>\<open>a\<close>.
\<close>

function bsearch_left :: "npfloat list \<Rightarrow> npfloat \<Rightarrow> nat \<Rightarrow> nat \<Rightarrow> nat" where
  "bsearch_left a v lo hi =
     (if lo < hi then
        (let mid = lo + (hi - lo) div 2
         in if np_less (a ! mid) v then bsearch_left a v (mid + 1) hi
            else bsearch_left a v lo mid)
      else lo)"
  by pat_completeness auto
termination
  by (relation "measure (\<lambda>(a, v, lo, hi). hi - lo)") auto

declare bsearch_left.simps [simp del]

definition searchsorted :: "npfloat list \<Rightarrow> npfloat \<Rightarrow> nat" where
  "searchsorted a v = bsearch_left a v 0 (length a)"


section \<open>Tables, the fitted projection and the widget\<close>

text \<open>
  A domain lists the variables of a table by name; a table holds its rows, split as Orange
  does into the attribute block \<^verbatim>\<open>X\<close>, the class block \<^verbatim>\<open>Y\<close> and the meta block.
\<close>

datatype cell = Num npfloat | Str string

record domain =
  attributes :: "string list"
  class_vars :: "string list"
  metas :: "string list"

record table =
  tdomain :: domain
  tX :: "cell list list"
  tY :: "cell list list"
  tmetas :: "cell list list"
  tname :: string
  is_sql :: bool

text \<open>
  \<^verbatim>\<open>Table.from_table(domain, source)\<close>: every row of the source, re-expressed in the
  variables of the new domain. A variable is looked up in the source by name; one the
  source does not have is unknown (NaN).
\<close>

definition row_in_domain :: "domain \<Rightarrow> string list \<Rightarrow> cell list \<times> cell list \<times> cell list \<Rightarrow> cell list" where
  "row_in_domain src vars r =
     (case r of (x, y, m) \<Rightarrow>
        map (\<lambda>v. case map_of (zip (attributes src @ class_vars src @ metas src) (x @ y @ m)) v of
                   Some c \<Rightarrow> c | None \<Rightarrow> Num NaN) vars)"

definition from_table :: "domain \<Rightarrow> table \<Rightarrow> table" where
  "from_table d src =
     (let rows = zip (tX src) (zip (tY src) (tmetas src))
      in \<lparr>tdomain = d,
          tX = map (row_in_domain (tdomain src) (attributes d)) rows,
          tY = map (row_in_domain (tdomain src) (class_vars d)) rows,
          tmetas = map (row_in_domain (tdomain src) (metas d)) rows,
          tname = tname src,
          is_sql = False\<rparr>)"

text \<open>
  \<^verbatim>\<open>Table(domain, X, metas=metas)\<close>: the blocks must have as many columns as the domain
  has variables and as many rows as each other, or the constructor raises.
\<close>

definition new_table :: "domain \<Rightarrow> cell list list \<Rightarrow> cell list list \<Rightarrow> error + table" where
  "new_table d x m =
     (if list_ex (\<lambda>r. length r \<noteq> length (attributes d)) x
         \<or> list_ex (\<lambda>r. length r \<noteq> length (metas d)) m
         \<or> length x \<noteq> length m
      then Inl ValueError
      else Inr \<lparr>tdomain = d, tX = x, tY = map (\<lambda>r. []) x, tmetas = m,
                tname = ''untitled'', is_sql = False\<rparr>)"

text \<open>
  The fitted projection (the value of \<^verbatim>\<open>self._pca\<close>): what the decomposition returns.
  Applying it to a table is the decomposition provider's work and is a parameter
  \<open>T\<close> of the operations below; fitting is the parameter \<open>F\<close>.
\<close>

record projection =
  explained_variance_ratio :: "npfloat list"
  pca_components :: "npfloat list list"
  orig_domain :: domain

datatype preprocessor = Normalize bool | Preprocessor string

record projector =
  n_components :: int
  random_state :: int
  preprocessors :: "preprocessor list"
  component :: int

text \<open>
  The scree plot, a \<^verbatim>\<open>SliderGraph\<close> of \<^verbatim>\<open>Orange/widgets/utils/slidergraph.py\<close>:
  the curves drawn, the x values last plotted (kept when the plot is cleared), the cut
  line (its position in \<open>cut_point\<close>, \<open>None\<close> when there is no line, and the bounds
  it was created with) and the axis ticks.
\<close>

record slider_graph =
  curves :: "(int list \<times> npfloat list list) option"
  cut_point :: "int option"
  ticks :: "int list"
  plot_x :: "int list option"
  line_bounds :: "int \<times> int"

datatype signal =
  Transformed_data "table option" | Components "table option" | PCA_signal projector

text \<open>
  The widget. \<open>sent\<close> is the sequence of values sent on the three outputs, oldest first;
  \<open>transform_calls\<close> counts the applications of the fitted projection to the data;
  \<open>components_spin_range\<close> is the range of the components spin box, which shows the
  count clamped to its range.
\<close>

record owpca =
  data :: "table option"
  pca :: "projection option"
  transformed :: "table option"
  variance_ratio :: "npfloat list option"
  cumulative :: "npfloat list option"
  pca_projector :: projector
  pca_preprocessors :: "preprocessor list"
  ncomponents :: int
  variance_covered :: int
  normalize :: bool
  maxp :: int
  axis_labels :: int
  components_spin_range :: "int \<times> int"
  plot :: slider_graph
  trivial_components :: bool
  sent :: "signal list"
  transform_calls :: nat

definition MAX_COMPONENTS :: int where
  "MAX_COMPONENTS = 100"

definition clear_plot :: "slider_graph \<Rightarrow> slider_graph" where
  "clear_plot g = g\<lparr>curves := None, cut_point := None\<rparr>"

definition clear :: "owpca \<Rightarrow> owpca" where
  "clear s = s\<lparr>pca := None, transformed := None, variance_ratio := None,
              cumulative := None, plot := clear_plot (plot s)\<rparr>"

definition clear_outputs :: "owpca \<Rightarrow> owpca" where
  "clear_outputs s =
     s\<lparr>sent := sent s @ [Transformed_data None, Components None, PCA_signal (pca_projector s)]\<rparr>"

text \<open>\<^verbatim>\<open>len(x)\<close> and \<^verbatim>\<open>x[i]\<close> of an attribute that may be \<^verbatim>\<open>None\<close>.\<close>

definition len_opt :: "'a list option \<Rightarrow> 's \<Rightarrow> (int, 's) result" where
  "len_opt xs s = (case xs of None \<Rightarrow> Raise TypeError s | Some l \<Rightarrow> Return (int (length l)) s)"

definition index_opt :: "'a list option \<Rightarrow> int \<Rightarrow> 's \<Rightarrow> ('a, 's) result" where
  "index_opt xs i s =
     (case xs of None \<Rightarrow> Raise TypeError s
      | Some l \<Rightarrow> (case py_index l i of Inl e \<Rightarrow> Raise e s | Inr x \<Rightarrow> Return x s))"

text \<open>
  \<^verbatim>\<open>OWPCA.commit\<close>. The full transform is computed when \<^verbatim>\<open>self._transformed\<close> is
  \<^verbatim>\<open>None\<close> and kept; both output tables are cut at \<^verbatim>\<open>self.ncomponents\<close>.
\<close>

definition pc_labels :: "int \<Rightarrow> cell list list" where
  "pc_labels n = map (\<lambda>i. [Str (''PC'' @ str_nat (i + 1))]) [0..<nat n]"

definition commit :: "(projection \<Rightarrow> table \<Rightarrow> table) \<Rightarrow> owpca \<Rightarrow> (unit, owpca) result" where
  "commit T s =
     (let emit = (\<lambda>tr co s'.
            Return ()
              (s'\<lparr>pca_projector := (pca_projector s')\<lparr>component := ncomponents s'\<rparr>,
                  sent := sent s' @ [Transformed_data tr, Components co,
                     PCA_signal ((pca_projector s')\<lparr>component := ncomponents s'\<rparr>)]\<rparr>))
      in case pca s of
           None \<Rightarrow> emit None None s
         | Some p \<Rightarrow>
            (case data s of
               None \<Rightarrow> Raise AttributeError s
             | Some d \<Rightarrow>
                (let s1 = (case transformed s of
                             None \<Rightarrow> s\<lparr>transformed := Some (T p d),
                                        transform_calls := transform_calls s + 1\<rparr>
                           | Some t \<Rightarrow> s);
                     full = (case transformed s of None \<Rightarrow> T p d | Some t \<Rightarrow> t);
                     dom1 = \<lparr>attributes = py_slice_to (ncomponents s) (attributes (tdomain full)),
                             class_vars = class_vars (tdomain d),
                             metas = metas (tdomain d)\<rparr>;
                     tr = from_table dom1 full;
                     dom2 = \<lparr>attributes = attributes (orig_domain p), class_vars = [],
                             metas = [''component'']\<rparr>
                 in case new_table dom2
                           (map (map Num) (py_slice_to (ncomponents s) (pca_components p)))
                           (pc_labels (ncomponents s)) of
                      Inl e \<Rightarrow> Raise e s1
                    | Inr co \<Rightarrow> emit (Some tr) (Some (co\<lparr>tname := ''components''\<rparr>)) s1)))"

definition invalidate_selection :: "(projection \<Rightarrow> table \<Rightarrow> table) \<Rightarrow> owpca \<Rightarrow> (unit, owpca) result" where
  "invalidate_selection T s = commit T s"

text \<open>
  \<^verbatim>\<open>if numpy.isfinite(var): self.variance_covered = int(var * 100)\<close>, as two of the
  callbacks have it.
\<close>

definition store_variance_covered :: "npfloat \<Rightarrow> owpca \<Rightarrow> (unit, owpca) result" where
  "store_variance_covered var s =
     (case var of
        Fin r \<Rightarrow>
          (case int_of_float (times_100 r) of
             Inl e \<Rightarrow> Raise e s
           | Inr v \<Rightarrow> Return () (s\<lparr>variance_covered := v\<rparr>))
      | _ \<Rightarrow> Return () s)"

text \<open>
  \<^verbatim>\<open>OWPCA._nselected_components\<close> (the spec's resolveCount): returns the number of
  selected components and repairs one of the two stored scalars.
\<close>

definition nselected_components :: "owpca \<Rightarrow> (int, owpca) result" where
  "nselected_components s =
     (case pca s of
        None \<Rightarrow> Return 0 s
      | Some p \<Rightarrow>
         then_do (if ncomponents s = 0 then len_opt (variance_ratio s) s
                  else Return (ncomponents s) s)
           (\<lambda>max_comp s.
              (case cumulative s of
                 None \<Rightarrow> Raise TypeError s
               | Some c \<Rightarrow>
                  (case py_index c (max_comp - 1) of
                     Inl e \<Rightarrow> Raise e s
                   | Inr var_max \<Rightarrow>
                      (case div_100 (variance_covered s) of
                         Inl e \<Rightarrow> Raise e s
                       | Inr v \<Rightarrow>
                          if np_ne var_max (np_floor v) then
                            (case var_max of
                               Fin r \<Rightarrow>
                                 (case int_of_float (times_100 r) of
                                    Inl e \<Rightarrow> Raise e s
                                  | Inr pc \<Rightarrow> Return max_comp (s\<lparr>variance_covered := pc\<rparr>))
                             | _ \<Rightarrow> Raise AssertionError s)
                          else
                            (let cut' = int (searchsorted c v) + 1
                             in Return cut' (s\<lparr>ncomponents := cut'\<rparr>)))))))"

text \<open>
  \<^verbatim>\<open>OWPCA._on_cut_changed\<close>, the callback the plot is built with: the cut line has
  moved to \<open>components\<close>.
\<close>

definition on_cut_changed ::
    "(projection \<Rightarrow> table \<Rightarrow> table) \<Rightarrow> int \<Rightarrow> owpca \<Rightarrow> (unit, owpca) result" where
  "on_cut_changed T components s =
     then_do (if ncomponents s = 0 then len_opt (variance_ratio s) s else Return 0 s)
       (\<lambda>n s.
          (let s1 = (if ncomponents s = 0 \<and> components = n then s
                     else s\<lparr>ncomponents := components\<rparr>)
           in then_do
                (case pca s1 of
                   None \<Rightarrow> Return () s1
                 | Some p \<Rightarrow>
                    then_do (index_opt (cumulative s1) (components - 1) s1)
                      (\<lambda>var s. store_variance_covered var s))
                (\<lambda>_ s. then_do (nselected_components s)
                   (\<lambda>k s. if components \<noteq> k then invalidate_selection T s else Return () s))))"

text \<open>
  The cut line of the plot. A line keeps the bounds it was created with, the least and the
  greatest x value plotted, and a position given to it is clamped to them.
  \<^verbatim>\<open>SliderGraph.update\<close> clears the plot, draws the curves and creates the line;
  nothing is connected to the new line yet, so no callback runs.
  \<^verbatim>\<open>SliderGraph.set_cut_point\<close> creates the line when there is none; otherwise it
  sets the position, and when that moves the line, the line's signal calls
  \<^verbatim>\<open>_on_cut_changed\<close> with the new position. The callback runs inside the signal:
  an exception it raises does not reach the caller of \<^verbatim>\<open>set_cut_point\<close>, which
  goes on with the widget as the callback left it.
\<close>

definition clamp :: "int \<times> int \<Rightarrow> int \<Rightarrow> int" where
  "clamp b x = min (max x (fst b)) (snd b)"

definition x_bounds :: "int list \<Rightarrow> int \<times> int" where
  "x_bounds xs = (fold min (tl xs) (hd xs), fold max (tl xs) (hd xs))"

definition graph_update ::
    "int list \<Rightarrow> npfloat list list \<Rightarrow> int \<Rightarrow> slider_graph \<Rightarrow> (unit, slider_graph) result" where
  "graph_update xs ys cutpoint_x g =
     (let g1 = (clear_plot g)\<lparr>curves := Some (xs, ys), plot_x := Some xs\<rparr>
      in if xs = [] then Raise ValueError g1
         else Return () (g1\<lparr>cut_point := Some (clamp (x_bounds xs) cutpoint_x),
                              line_bounds := x_bounds xs\<rparr>))"

definition set_cut_point ::
    "(projection \<Rightarrow> table \<Rightarrow> table) \<Rightarrow> int \<Rightarrow> owpca \<Rightarrow> (unit, owpca) result" where
  "set_cut_point T x s =
     (case cut_point (plot s) of
        None \<Rightarrow>
          (case plot_x (plot s) of
             None \<Rightarrow> Raise AttributeError s
           | Some xs \<Rightarrow>
              if xs = [] then Raise ValueError s
              else Return ()
                (s\<lparr>plot := (plot s)\<lparr>cut_point := Some (clamp (x_bounds xs) x),
                                       line_bounds := x_bounds xs\<rparr>\<rparr>))
      | Some pos \<Rightarrow>
          if clamp (line_bounds (plot s)) x = pos then Return () s
          else Return ()
            (final_state
               (on_cut_changed T (clamp (line_bounds (plot s)) x)
                  (s\<lparr>plot := (plot s)\<lparr>cut_point := Some (clamp (line_bounds (plot s)) x)\<rparr>\<rparr>))))"

text \<open>
  \<^verbatim>\<open>OWPCA._update_selection_component_spin\<close> (the spec's setByCount): the callback of
  the components spin box, which has stored its value in \<^verbatim>\<open>self.ncomponents\<close>.
\<close>

definition update_selection_component_spin ::
    "(projection \<Rightarrow> table \<Rightarrow> table) \<Rightarrow> owpca \<Rightarrow> (unit, owpca) result" where
  "update_selection_component_spin T s =
     (case pca s of
        None \<Rightarrow> invalidate_selection T s
      | Some p \<Rightarrow>
         then_do (if ncomponents s = 0 then len_opt (variance_ratio s) s
                  else Return (ncomponents s) s)
           (\<lambda>cut' s.
              then_do (index_opt (cumulative s) (cut' - 1) s)
                (\<lambda>var s.
                   then_do (store_variance_covered var s)
                     (\<lambda>_ s.
                        then_do (set_cut_point T cut' s)
                          (\<lambda>_ s. invalidate_selection T s)))))"


text \<open>\<^verbatim>\<open>OWPCA._update_axis\<close> and \<^verbatim>\<open>OWPCA._setup_plot\<close>.\<close>

definition update_axis :: "owpca \<Rightarrow> (unit, owpca) result" where
  "update_axis s =
     then_do (len_opt (variance_ratio s) s)
       (\<lambda>n s.
          (let p = min n (maxp s)
           in if axis_labels s - 1 = 0 then Raise ZeroDivisionError s
              else Return ()
                (s\<lparr>plot := (plot s)\<lparr>ticks :=
                     py_range_step p (max ((p - 1) div (axis_labels s - 1)) 1)\<rparr>\<rparr>)))"

definition setup_plot :: "owpca \<Rightarrow> (unit, owpca) result" where
  "setup_plot s =
     (case pca s of
        None \<Rightarrow> Return () (s\<lparr>plot := clear_plot (plot s)\<rparr>)
      | Some pr \<Rightarrow>
         (let explained_ratio = variance_ratio s; explained = cumulative s
          in then_do (nselected_components s)
               (\<lambda>cutpos s.
                  then_do (len_opt (variance_ratio s) s)
                    (\<lambda>n s.
                       (let p = min n (maxp s)
                        in case (explained_ratio, explained) of
                             (Some r, Some c) \<Rightarrow>
                               (case graph_update [1..p] [py_slice_to p r, py_slice_to p c]
                                       cutpos (plot s) of
                                  Raise e g \<Rightarrow> Raise e (s\<lparr>plot := g\<rparr>)
                                | Return u g \<Rightarrow> update_axis (s\<lparr>plot := g\<rparr>))
                           | _ \<Rightarrow> Raise TypeError s)))))"

text \<open>
  \<^verbatim>\<open>self.components_spin.setRange(lo, hi)\<close>. The spin box shows the count clamped to
  its range; when the new range moves the shown value, the spin box stores the new value in
  \<^verbatim>\<open>self.ncomponents\<close> and calls its callback, inside the signal as for the cut line.
\<close>

definition components_spin_set_range ::
    "(projection \<Rightarrow> table \<Rightarrow> table) \<Rightarrow> int \<times> int \<Rightarrow> owpca \<Rightarrow> owpca" where
  "components_spin_set_range T r s =
     (let shown = clamp (components_spin_range s) (ncomponents s)
      in if clamp r shown = shown then s\<lparr>components_spin_range := r\<rparr>
         else final_state
                (update_selection_component_spin T
                   (s\<lparr>components_spin_range := r, ncomponents := clamp r shown\<rparr>)))"

text \<open>
  \<^verbatim>\<open>OWPCA.fit\<close>. \<open>F\<close> is the call of the projector on the data, made after the
  projector's preprocessors are set from the normalisation flag. A spectrum whose last
  cumulative value is not finite is not installed.
\<close>

definition configure_projector :: "owpca \<Rightarrow> projector" where
  "configure_projector s =
     (pca_projector s)\<lparr>preprocessors :=
        (if normalize s then pca_preprocessors s @ [Normalize False]
         else pca_preprocessors s)\<rparr>"

definition fit ::
    "(projector \<Rightarrow> table \<Rightarrow> projection) \<Rightarrow> (projection \<Rightarrow> table \<Rightarrow> table) \<Rightarrow> owpca
       \<Rightarrow> (unit, owpca) result" where
  "fit F T s0 =
     (let s = (clear s0)\<lparr>trivial_components := False\<rparr>
      in case data s of
           None \<Rightarrow> Return () s
         | Some d \<Rightarrow>
            (let s1 = s\<lparr>pca_projector := configure_projector s\<rparr>
             in if is_sql d then Return () s1
                else
                  (let p = F (pca_projector s1) d;
                       ratio = explained_variance_ratio p;
                       cum = cumsum ratio
                   in case py_index cum (- 1) of
                        Inl e \<Rightarrow> Raise e s1
                      | Inr l \<Rightarrow>
                         if isfinite l then
                           then_do
                             (setup_plot
                                ((components_spin_set_range T (0, int (length cum)) s1)
                                   \<lparr>pca := Some p, variance_ratio := Some ratio,
                                    cumulative := Some cum\<rparr>))
                             (\<lambda>_ s. commit T s)
                         else commit T (s1\<lparr>trivial_components := True\<rparr>))))"

text \<open>
  \<^verbatim>\<open>OWPCA.migrate_settings\<close>. A persisted settings dictionary maps names to Python
  values; the method rewrites it in place.
\<close>

datatype pyval = PyNone | PyBool bool | PyInt int | PyFloat npfloat | PyStr string

type_synonym settings = "string \<rightharpoonup> pyval"

text \<open>\<^verbatim>\<open>isinstance(v, numbers.Real)\<close>: integers, booleans and floats.\<close>

fun is_real :: "pyval \<Rightarrow> bool" where
  "is_real (PyBool b) = True"
| "is_real (PyInt i) = True"
| "is_real (PyFloat f) = True"
| "is_real PyNone = False"
| "is_real (PyStr x) = False"

text \<open>
  \<^verbatim>\<open>numpy.isfinite(v)\<close> of a real value: numpy takes a Python integer that fits 64
  bits, signed or unsigned, and raises \<^verbatim>\<open>TypeError\<close> for any other.
  \<^verbatim>\<open>int(v)\<close> of a real value that is finite.
\<close>

fun isfinite_val :: "pyval \<Rightarrow> error + bool" where
  "isfinite_val (PyFloat f) = Inr (isfinite f)"
| "isfinite_val (PyInt i) =
     (if - (2 ^ 63) \<le> i \<and> i < 2 ^ 64 then Inr True else Inl TypeError)"
| "isfinite_val v = Inr True"

fun int_val :: "pyval \<Rightarrow> int" where
  "int_val (PyBool b) = (if b then 1 else 0)"
| "int_val (PyInt i) = i"
| "int_val (PyFloat (Fin r)) = py_int r"
| "int_val v = 0"

text \<open>\<^verbatim>\<open>v > n\<close> for an integer \<^verbatim>\<open>n\<close>: a value that is not a number cannot be ordered.\<close>

fun py_gt :: "pyval \<Rightarrow> int \<Rightarrow> error + bool" where
  "py_gt (PyBool b) n = Inr ((if b then 1 else 0) > n)"
| "py_gt (PyInt i) n = Inr (i > n)"
| "py_gt (PyFloat (Fin r)) n = Inr (r > of_int n)"
| "py_gt (PyFloat PInf) n = Inr True"
| "py_gt (PyFloat NInf) n = Inr False"
| "py_gt (PyFloat NaN) n = Inr False"
| "py_gt PyNone n = Inl TypeError"
| "py_gt (PyStr x) n = Inl TypeError"

definition pop :: "string \<Rightarrow> settings \<Rightarrow> settings" where
  "pop k m = m(k := None)"

definition migrate_settings :: "settings \<Rightarrow> int \<Rightarrow> (unit, settings) result" where
  "migrate_settings settings version =
     (case (case settings ''variance_covered'' of
              None \<Rightarrow> Inr settings
            | Some vc \<Rightarrow>
               if is_real vc then
                 (case isfinite_val vc of
                    Inl e \<Rightarrow> Inl e
                  | Inr b \<Rightarrow>
                     Inr (settings(''variance_covered'' \<mapsto>
                            (if b then PyInt (int_val vc) else PyInt 100))))
               else Inr settings) of
        Inl e \<Rightarrow> Raise e settings
      | Inr settings1 \<Rightarrow>
         (case py_gt (case settings1 ''ncomponents'' of None \<Rightarrow> PyInt 0 | Some v \<Rightarrow> v)
                  MAX_COMPONENTS of
            Inl e \<Rightarrow> Raise e settings1
          | Inr b \<Rightarrow>
             Return ()
               (pop ''auto_update'' (pop ''address'' (pop ''batch_size''
                  (pop ''decomposition_idx''
                     (if b then settings1(''ncomponents'' \<mapsto> PyInt MAX_COMPONENTS)
                      else settings1)))))))"


section \<open>Notions used in the statements\<close>

text \<open>An array that is non-decreasing in the order \<^verbatim>\<open>searchsorted\<close> assumes.\<close>

definition nondecreasing :: "npfloat list \<Rightarrow> bool" where
  "nondecreasing a = sorted_wrt (\<lambda>x y. \<not> np_less y x) a"




text \<open>
  What a sequence of actions may do to the cache of the full transform: the projection and
  the data stay, a cached transform stays with no further application of the projection,
  and an empty cache is either still empty or holds the transform of the data, computed by
  one application.
\<close>

definition cache_kept :: "(projection \<Rightarrow> table \<Rightarrow> table) \<Rightarrow> owpca \<Rightarrow> owpca \<Rightarrow> bool" where
  "cache_kept T s s' =
     (pca s' = pca s \<and> data s' = data s \<and>
      (case transformed s of
         Some t \<Rightarrow> transformed s' = Some t \<and> transform_calls s' = transform_calls s
       | None \<Rightarrow>
          (transformed s' = None \<and> transform_calls s' = transform_calls s)
          \<or> (case (pca s, data s) of
                (Some p, Some d) \<Rightarrow>
                  transformed s' = Some (T p d) \<and> transform_calls s' = transform_calls s + 1
              | _ \<Rightarrow> False)))"

text \<open>
  The operation resolveCount as the specification words it (section 4.2): the resolved
  count is the stored count, or the spectrum length for the sentinel 0; the stored
  percentage is repaired when it disagrees with the floor of the cumulative value at the
  resolved count times 100, and otherwise the count is re-derived as the smallest one whose
  cumulative value reaches the percentage, clamped to the spectrum length.
\<close>

definition smallest_count :: "rat list \<Rightarrow> rat \<Rightarrow> int" where
  "smallest_count q v = min (int (length (takeWhile (\<lambda>x. x < v) q)) + 1) (int (length q))"

definition resolve_count_spec :: "rat list \<Rightarrow> int \<times> int \<Rightarrow> int \<times> (int \<times> int)" where
  "resolve_count_spec q sel =
     (case sel of (component_count, variance_percent) \<Rightarrow>
        (let resolved = (if component_count = 0 then int (length q) else component_count)
         in if variance_percent \<noteq> \<lfloor>q ! nat (resolved - 1) * 100\<rfloor>
            then (resolved, (component_count, \<lfloor>q ! nat (resolved - 1) * 100\<rfloor>))
            else (smallest_count q (of_int variance_percent / 100),
                  (smallest_count q (of_int variance_percent / 100), variance_percent))))"

text \<open>
  A small widget to evaluate the operations on: the settings at their defaults, a table
  of two rows with two features, a class and a meta column, and a decomposition provider
  that reports a given spectrum with one unit loading vector per component.
\<close>

definition example_widget :: owpca where
  "example_widget =
     \<lparr>data = None, pca = None, transformed = None, variance_ratio = None, cumulative = None,
      pca_projector = \<lparr>n_components = MAX_COMPONENTS, random_state = 0, preprocessors = [],
                        component = 2\<rparr>,
      pca_preprocessors = [], ncomponents = 2, variance_covered = 100, normalize = True,
      maxp = 20, axis_labels = 10, components_spin_range = (1, MAX_COMPONENTS),
      plot = \<lparr>curves = None, cut_point = None, ticks = [], plot_x = None,
              line_bounds = (0, 0)\<rparr>,
      trivial_components = False, sent = [], transform_calls = 0\<rparr>"

definition example_data :: table where
  "example_data =
     \<lparr>tdomain = \<lparr>attributes = [''a'', ''b''], class_vars = [''y''], metas = [''m'']\<rparr>,
      tX = [[Num (Fin 1), Num (Fin 2)], [Num (Fin 3), Num (Fin 5)]],
      tY = [[Num (Fin 0)], [Num (Fin 1)]],
      tmetas = [[Str ''r1''], [Str ''r2'']],
      tname = ''example'', is_sql = False\<rparr>"

definition example_fit :: "npfloat list \<Rightarrow> projector \<Rightarrow> table \<Rightarrow> projection" where
  "example_fit ratio pr d =
     \<lparr>explained_variance_ratio = ratio,
      pca_components = map (\<lambda>r. [Fin 1, Fin 0]) ratio,
      orig_domain = tdomain d\<rparr>"

definition example_transform :: "projection \<Rightarrow> table \<Rightarrow> table" where
  "example_transform p d =
     d\<lparr>tdomain := (tdomain d)\<lparr>attributes :=
           map (\<lambda>i. ''PC'' @ str_nat (i + 1)) [0..<length (pca_components p)]\<rparr>,
       tX := map (\<lambda>r. map (\<lambda>c. Num (Fin 0)) (pca_components p)) (tX d)\<rparr>"

text \<open>The example widget after a fit of the example data that reports the spectrum \<open>ratio\<close>.\<close>

definition fitted :: "npfloat list \<Rightarrow> int \<Rightarrow> int \<Rightarrow> owpca" where
  "fitted ratio n v =
     final_state (fit (example_fit ratio) example_transform
        (example_widget\<lparr>data := Some example_data, ncomponents := n, variance_covered := v\<rparr>))"


text \<open>
  A widget holding a spectrum that explains no variance, with count 1 and percentage 50.
\<close>

definition zero_spectrum_widget :: owpca where
  "zero_spectrum_widget =
     example_widget\<lparr>data := Some example_data,
        pca := Some (example_fit [Fin 0, Fin 0] (pca_projector example_widget) example_data),
        variance_ratio := Some [Fin 0, Fin 0], cumulative := Some [Fin 0, Fin 0],
        ncomponents := 1, variance_covered := 50\<rparr>"

section \<open>The binary search\<close>

lemma np_less_neg_trans: "np_less x z \<Longrightarrow> np_less x y \<or> np_less y z"
  by (cases x; cases y; cases z) auto

lemma nondecreasing_nth:
  "nondecreasing a \<Longrightarrow> i < j \<Longrightarrow> j < length a \<Longrightarrow> \<not> np_less (a ! j) (a ! i)"
  by (simp add: nondecreasing_def sorted_wrt_iff_nth_less)

lemma nondecreasing_Fin:
  assumes s: "sorted q"
  shows "nondecreasing (map Fin q)"
  unfolding nondecreasing_def sorted_wrt_iff_nth_less
proof (intro allI impI)
  fix i j assume ij: "i < j" and j: "j < length (map Fin q)"
  have "q ! i \<le> q ! j" using s ij j by (simp add: sorted_iff_nth_mono_less)
  then show "\<not> np_less (map Fin q ! j) (map Fin q ! i)" using ij j by simp
qed

lemma bsearch_left_correct:
  assumes "nondecreasing a" "lo \<le> hi" "hi \<le> length a"
    "\<forall>i<lo. np_less (a ! i) v"
    "\<forall>i. hi \<le> i \<and> i < length a \<longrightarrow> \<not> np_less (a ! i) v"
  shows "lo \<le> bsearch_left a v lo hi \<and> bsearch_left a v lo hi \<le> hi
    \<and> (\<forall>i<bsearch_left a v lo hi. np_less (a ! i) v)
    \<and> (\<forall>i. bsearch_left a v lo hi \<le> i \<and> i < length a \<longrightarrow> \<not> np_less (a ! i) v)"
  using assms
proof (induction a v lo hi rule: bsearch_left.induct)
  case (1 a v lo hi)
  show ?case
  proof (cases "lo < hi")
    case False
    then have "bsearch_left a v lo hi = lo"
      by (subst bsearch_left.simps) simp
    moreover have "lo = hi" using False "1.prems"(2) by simp
    ultimately show ?thesis using "1.prems"(4,5) by simp
  next
    case True
    define mid where "mid = lo + (hi - lo) div 2"
    have mid: "lo \<le> mid" "mid < hi" using True by (auto simp: mid_def)
    show ?thesis
    proof (cases "np_less (a ! mid) v")
      case less: True
      have below: "\<forall>i<mid + 1. np_less (a ! i) v"
      proof (intro allI impI)
        fix i assume "i < mid + 1"
        show "np_less (a ! i) v"
        proof (cases "i = mid")
          case True then show ?thesis using less by simp
        next
          case False
          then have "i < mid" using \<open>i < mid + 1\<close> by simp
          then have "\<not> np_less (a ! mid) (a ! i)"
            using nondecreasing_nth[OF "1.prems"(1), of i mid] mid "1.prems"(3) by simp
          with np_less_neg_trans[OF less, of "a ! i"] show ?thesis by blast
        qed
      qed
      have eq: "bsearch_left a v lo hi = bsearch_left a v (mid + 1) hi"
        using True less by (subst bsearch_left.simps) (simp add: mid_def Let_def)
      have le: "mid + 1 \<le> hi" using mid by simp
      note ih = "1.IH"(1)[OF True mid_def less "1.prems"(1) le "1.prems"(3) below "1.prems"(5)]
      have "lo \<le> bsearch_left a v (mid + 1) hi" using ih[THEN conjunct1] mid by linarith
      then show ?thesis unfolding eq using ih[THEN conjunct2] by (rule conjI)
    next
      case nless: False
      have above: "\<forall>i. mid \<le> i \<and> i < length a \<longrightarrow> \<not> np_less (a ! i) v"
      proof (intro allI impI)
        fix i assume i: "mid \<le> i \<and> i < length a"
        show "\<not> np_less (a ! i) v"
        proof (cases "i = mid")
          case True then show ?thesis using nless by simp
        next
          case False
          then have "mid < i" using i by simp
          then have "\<not> np_less (a ! i) (a ! mid)"
            using nondecreasing_nth[OF "1.prems"(1), of mid i] i by simp
          with np_less_neg_trans[of "a ! i" v "a ! mid"] nless show ?thesis by blast
        qed
      qed
      have eq: "bsearch_left a v lo hi = bsearch_left a v lo mid"
        using True nless by (subst bsearch_left.simps) (simp add: mid_def Let_def)
      have le: "mid \<le> length a" using mid "1.prems"(3) by simp
      note ih = "1.IH"(2)[OF True mid_def nless "1.prems"(1) mid(1) le "1.prems"(4) above]
      have "bsearch_left a v lo mid \<le> hi"
        using ih[THEN conjunct2, THEN conjunct1] mid by linarith
      then have "bsearch_left a v lo mid \<le> hi
        \<and> (\<forall>i<bsearch_left a v lo mid. np_less (a ! i) v)
        \<and> (\<forall>i. bsearch_left a v lo mid \<le> i \<and> i < length a \<longrightarrow> \<not> np_less (a ! i) v)"
        using ih[THEN conjunct2, THEN conjunct2] by (rule conjI)
      with ih[THEN conjunct1] show ?thesis unfolding eq by (rule conjI)
    qed
  qed
qed



lemma searchsorted_correct:
  assumes "nondecreasing a"
  shows "searchsorted a v \<le> length a
    \<and> (\<forall>i<searchsorted a v. np_less (a ! i) v)
    \<and> (\<forall>i. searchsorted a v \<le> i \<and> i < length a \<longrightarrow> \<not> np_less (a ! i) v)"
proof -
  have "0 \<le> bsearch_left a v 0 (length a) \<and> bsearch_left a v 0 (length a) \<le> length a
    \<and> (\<forall>i<bsearch_left a v 0 (length a). np_less (a ! i) v)
    \<and> (\<forall>i. bsearch_left a v 0 (length a) \<le> i \<and> i < length a \<longrightarrow> \<not> np_less (a ! i) v)"
    by (rule bsearch_left_correct[OF assms]) auto
  then show ?thesis unfolding searchsorted_def by (rule conjunct2)
qed

lemma searchsorted_Fin:
  assumes "sorted q"
  shows "searchsorted (map Fin q) (Fin v) \<le> length q
    \<and> (\<forall>i<searchsorted (map Fin q) (Fin v). q ! i < v)
    \<and> (\<forall>i. searchsorted (map Fin q) (Fin v) \<le> i \<and> i < length q \<longrightarrow> v \<le> q ! i)"
proof -
  let ?k = "searchsorted (map Fin q) (Fin v)"
  note c = searchsorted_correct[OF nondecreasing_Fin[OF assms], of "Fin v"]
  have k: "?k \<le> length q" using c by simp
  have a: "\<forall>i<?k. q ! i < v"
  proof (intro allI impI)
    fix i assume "i < ?k"
    then have "np_less (map Fin q ! i) (Fin v)" using c by blast
    moreover have "i < length q" using \<open>i < ?k\<close> k by simp
    ultimately show "q ! i < v" by simp
  qed
  have b: "\<forall>i. ?k \<le> i \<and> i < length q \<longrightarrow> v \<le> q ! i"
  proof (intro allI impI)
    fix i assume i: "?k \<le> i \<and> i < length q"
    then have "\<not> np_less (map Fin q ! i) (Fin v)" using c by simp
    then show "v \<le> q ! i" using i by simp
  qed
  show ?thesis using k a b by blast
qed



section \<open>The spin box callbacks before any fit\<close>



section \<open>A fit whose spectrum is not finite\<close>

lemma py_index_last: "xs \<noteq> [] \<Longrightarrow> py_index xs (- 1) = Inr (last xs)"
  by (cases xs rule: rev_cases) (auto simp: py_index_def nth_append)

text \<open>
  Claim C8. When the data is a table and the last value of the cumulative variance sequence
  of the fit is not finite, \<^verbatim>\<open>fit\<close> returns with the trivial-components warning
  raised and nothing installed: the projection, the variance ratios, the cumulative
  sequence and the cached transform stay cleared. The commit it ends with sends empty
  transformed data and empty components, and still sends the projector; so does any commit
  after it.
\<close>

theorem fit_trivial_components:
  assumes "data s = Some d" and "\<not> is_sql d"
    and "cumsum (explained_variance_ratio (F (configure_projector s) d)) = c"
    and "c \<noteq> []" and "\<not> isfinite (last c)"
  shows "fit F T s =
      Return ()
        ((clear s)\<lparr>pca_projector := (configure_projector s)\<lparr>component := ncomponents s\<rparr>,
            trivial_components := True,
            sent := sent s @ [Transformed_data None, Components None,
               PCA_signal ((configure_projector s)\<lparr>component := ncomponents s\<rparr>)]\<rparr>)
    \<and> pca (final_state (fit F T s)) = None
    \<and> variance_ratio (final_state (fit F T s)) = None
    \<and> cumulative (final_state (fit F T s)) = None
    \<and> transformed (final_state (fit F T s)) = None
    \<and> trivial_components (final_state (fit F T s))
    \<and> sent (final_state (commit T (final_state (fit F T s)))) =
        sent (final_state (fit F T s)) @ [Transformed_data None, Components None,
           PCA_signal (pca_projector (final_state (fit F T s)))]"
proof -
  have cp: "configure_projector (s\<lparr>pca := None, transformed := None, variance_ratio := None,
      cumulative := None, plot := clear_plot (plot s), trivial_components := False\<rparr>)
      = configure_projector s"
    by (simp add: configure_projector_def)
  have idx: "py_index c (- 1) = Inr (last c)"
    using assms(4) by (rule py_index_last)
  have f: "fit F T s =
      Return ()
        ((clear s)\<lparr>pca_projector := (configure_projector s)\<lparr>component := ncomponents s\<rparr>,
            trivial_components := True,
            sent := sent s @ [Transformed_data None, Components None,
               PCA_signal ((configure_projector s)\<lparr>component := ncomponents s\<rparr>)]\<rparr>)"
    using assms(1,2,5) idx
    by (simp add: fit_def Let_def cp assms(3) commit_def clear_def)
  show ?thesis
    unfolding f by (simp add: final_state_def commit_def clear_def)
qed

theorem fit_trivial_components_witness:
  "data (example_widget\<lparr>data := Some example_data\<rparr>) = Some example_data
   \<and> \<not> is_sql example_data
   \<and> cumsum (explained_variance_ratio (example_fit [Fin (1 / 2), NaN]
        (configure_projector (example_widget\<lparr>data := Some example_data\<rparr>)) example_data))
      = [Fin (1 / 2), NaN]
   \<and> \<not> isfinite (last [Fin (1 / 2), NaN])
   \<and> trivial_components (fitted [Fin (1 / 2), NaN] 2 100)
   \<and> pca (fitted [Fin (1 / 2), NaN] 2 100) = None
   \<and> sent (fitted [Fin (1 / 2), NaN] 2 100) =
       [Transformed_data None, Components None,
        PCA_signal (pca_projector (fitted [Fin (1 / 2), NaN] 2 100))]"
proof -
  let ?s = "example_widget\<lparr>data := Some example_data\<rparr>"
  have h1: "data ?s = Some example_data" by simp
  have h2: "\<not> is_sql example_data" by (simp add: example_data_def)
  have h3: "cumsum (explained_variance_ratio (example_fit [Fin (1 / 2), NaN]
        (configure_projector ?s) example_data)) = [Fin (1 / 2), NaN]"
    by (simp add: example_fit_def)
  have h4: "[Fin (1 / 2), NaN] \<noteq> []" by simp
  have h5: "\<not> isfinite (last [Fin (1 / 2), NaN])" by simp
  have e: "example_widget\<lparr>data := Some example_data, ncomponents := 2, variance_covered := 100\<rparr>
      = ?s" by (simp add: example_widget_def)
  show ?thesis
    using fit_trivial_components[where s = "?s" and d = example_data
        and F = "example_fit [Fin (1 / 2), NaN]" and c = "[Fin (1 / 2), NaN]"
        and T = example_transform, OF h1 h2 h3 h4 h5] h2 h3
    by (simp add: fitted_def e final_state_def clear_def example_widget_def)
qed


section \<open>The cached full transform\<close>





lemma final_state_simps [simp]:
  "final_state (Return a s) = s" "final_state (Raise e s) = s"
  by (simp_all add: final_state_def)


lemma cache_kept_frame_left:
  assumes "pca s1 = pca s" "data s1 = data s" "transformed s1 = transformed s"
    "transform_calls s1 = transform_calls s" "cache_kept T s1 s'"
  shows "cache_kept T s s'"
  using assms(5) unfolding cache_kept_def assms(1-4) by assumption
















section \<open>The selection invariant and the committed tables\<close>

text \<open>
  Claim C3. After any call of resolveCount, setByCount or setByVariance the count should be
  0 or between 1 and the spectrum length. \<^verbatim>\<open>_nselected_components\<close> does not keep
  this: its search for the count is not clamped to the spectrum length, as the one in
  \<^verbatim>\<open>_update_selection_variance_spin\<close> is. On a spectrum of two components with the
  ratios 0 and 0, count 1 and percentage 50, the cumulative value 0 equals
  floor(50 / 100), no cumulative value reaches 0.5, and the count becomes 3. The same
  happens inside a fit of such data, whose commit then raises.
\<close>

theorem resolve_count_exceeds_spectrum:
  "nselected_components zero_spectrum_widget
     = Return 3 (zero_spectrum_widget\<lparr>ncomponents := 3\<rparr>)
   \<and> cumulative (fitted [Fin 0, Fin 0] 1 50) = Some [Fin 0, Fin 0]
   \<and> variance_covered (fitted [Fin 0, Fin 0] 1 50) = 50
   \<and> ncomponents (fitted [Fin 0, Fin 0] 1 50) = 3
   \<and> fit (example_fit [Fin 0, Fin 0]) example_transform
        (example_widget\<lparr>data := Some example_data, ncomponents := 1, variance_covered := 50\<rparr>)
       = Raise ValueError (fitted [Fin 0, Fin 0] 1 50)"
  by code_simp

text \<open>
  Claim C1. With the sentinel 0 stored as the count, the committed tables should hold all
  components. \<^verbatim>\<open>commit\<close> slices by the stored count itself: after a fit that
  reports two components, with the sentinel stored, the count is resolved to 2 for the
  plot, but the transformed table sent has no feature column (the class and meta columns
  are there) and the components table has no row.
\<close>

theorem commit_all_components_sends_none:
  "ncomponents (fitted [Fin (1 / 2), Fin (1 / 4)] 0 100) = 0
   \<and> cumulative (fitted [Fin (1 / 2), Fin (1 / 4)] 0 100) = Some [Fin (1 / 2), Fin (3 / 4)]
   \<and> cut_point (plot (fitted [Fin (1 / 2), Fin (1 / 4)] 0 100)) = Some 2
   \<and> (case sent (fitted [Fin (1 / 2), Fin (1 / 4)] 0 100) of
         [Transformed_data (Some t), Components (Some c), PCA_signal pr] \<Rightarrow>
           attributes (tdomain t) = [] \<and> tX t = [[], []]
           \<and> class_vars (tdomain t) = [''y''] \<and> metas (tdomain t) = [''m'']
           \<and> attributes (tdomain c) = [''a'', ''b''] \<and> tX c = [] \<and> tmetas c = []
           \<and> component pr = 0
       | _ \<Rightarrow> False)
   \<and> attributes (tdomain (example_transform
         (example_fit [Fin (1 / 2), Fin (1 / 4)] (pca_projector example_widget) example_data)
         example_data)) = [''PC1'', ''PC2'']"
  by code_simp

end
